theory Spec2Isabelle
  imports Complex_Main
begin

section \<open>Request coordination of the CARA ComplianceBot backend\<close>

text \<open>
  A shallow embedding of \<^verbatim>\<open>src/app/backend/main.py\<close>: the chat endpoint
  \<^verbatim>\<open>chat_with_bot\<close>, the polling endpoint \<^verbatim>\<open>get_task_status\<close>, the
  helpers \<^verbatim>\<open>check_existing_query\<close> and \<^verbatim>\<open>_generate_request_hash\<close>, and
  the background worker \<^verbatim>\<open>generate_ai_response_task\<close>.

  Conventions.
  \<^item> A Python \<^verbatim>\<open>str\<close> is a \<open>string\<close>; \<^verbatim>\<open>Optional[str]\<close> is a \<open>string option\<close>.
  \<^item> A \<^verbatim>\<open>datetime\<close> is an \<open>int\<close>, its number of microseconds since the epoch
    (the resolution of \<^verbatim>\<open>datetime\<close>); \<^verbatim>\<open>total_seconds\<close> divides by \<open>10\<^sup>6\<close>.
  \<^item> The two module-level dictionaries are maps in an explicit state record, which every
    operation takes and returns.
  \<^item> What the environment answers (the clock, the vector store, the generator) is an
    argument of the operation that asks for it; a call that may raise answers with an
    \<open>outcome\<close>.
  \<^item> The digest \<^verbatim>\<open>hashlib.md5(s.encode()).hexdigest()\<close> of a string and the builtin
    \<^verbatim>\<open>hash\<close> are library functions outside the repository: they are the
    parameters \<open>md5\<close> and \<open>pyhash\<close> of the functions that call them.
  \<^item> The state carries a \<open>trace\<close>: the calls with an effect outside the function, in
    program order.
\<close>

subsection \<open>Python values\<close>

type_synonym datetime = int

definition total_seconds :: "int \<Rightarrow> real" where
  "total_seconds delta = real_of_int delta / 1000000"

text \<open>The result of a call that may raise: the exception's message, or the value.\<close>

datatype 'a outcome = Raises string | Returns 'a

text \<open>
  A key of a dictionary read from the vector store: missing, present with the value
  \<^verbatim>\<open>None\<close>, or present with a value.
\<close>

datatype 'a field = Absent | Null | Val 'a

datatype py_exception = KeyError | IndexError | TypeError | AttributeError

datatype http_error = HTTPException nat string

text \<open>Truthiness of an \<^verbatim>\<open>Optional[str]\<close>: neither \<^verbatim>\<open>None\<close> nor empty.\<close>

definition truthy :: "string option \<Rightarrow> bool" where
  "truthy v = (case v of None \<Rightarrow> False | Some t \<Rightarrow> t \<noteq> [])"

text \<open>\<^verbatim>\<open>xs[0]\<close>, which raises \<^verbatim>\<open>IndexError\<close> on an empty list.\<close>

fun index0 :: "'a list \<Rightarrow> py_exception + 'a" where
  "index0 [] = Inl IndexError"
| "index0 (x # xs) = Inr x"

definition newline :: char where
  "newline = CHR 0x0A"

text \<open>\<^verbatim>\<open>s.split(sep, 1)\<close> for a one-character separator: one part, or two.\<close>

definition split1 :: "char \<Rightarrow> string \<Rightarrow> string list" where
  "split1 sep s =
     (if sep \<in> set s
      then [takeWhile (\<lambda>c. c \<noteq> sep) s, tl (dropWhile (\<lambda>c. c \<noteq> sep) s)]
      else [s])"

text \<open>\<^verbatim>\<open>str(n)\<close> of an integer: decimal digits, with a minus sign when negative.\<close>

definition digit_char :: "nat \<Rightarrow> char" where
  "digit_char d = ''0123456789'' ! d"

fun show_nat :: "nat \<Rightarrow> string" where
  "show_nat n =
     (if n < 10 then [digit_char n] else show_nat (n div 10) @ [digit_char (n mod 10)])"

declare show_nat.simps [simp del]

definition str_int :: "int \<Rightarrow> string" where
  "str_int i = (if i < 0 then CHR ''-'' # show_nat (nat (- i)) else show_nat (nat i))"

subsection \<open>Request fingerprint\<close>

text \<open>
  \<^verbatim>\<open>request_string = f"{username}:{query}:{module or 'none'}"\<close>; an empty module is
  falsy, so it reads \<^verbatim>\<open>'none'\<close> too.
\<close>

definition module_or_none :: "string option \<Rightarrow> string" where
  "module_or_none modul = (if truthy modul then the modul else ''none'')"

definition request_string :: "string \<Rightarrow> string \<Rightarrow> string option \<Rightarrow> string" where
  "request_string username query modul =
     username @ '':'' @ query @ '':'' @ module_or_none modul"

definition generate_request_hash ::
  "(string \<Rightarrow> string) \<Rightarrow> string \<Rightarrow> string \<Rightarrow> string option \<Rightarrow> string" where
  "generate_request_hash md5 username query modul =
     md5 (request_string username query modul)"

subsection \<open>The lookup of a stored answer\<close>

type_synonym metadata = "string \<rightharpoonup> string"

text \<open>
  What \<^verbatim>\<open>chroma_db.query_collection\<close> returns: a dictionary of lists with one inner
  list per query text.
\<close>

record query_result =
  documents :: "string list list field"
  distances :: "real list list field"
  metadatas :: "metadata option list list field"

record existing =
  found_response :: string
  found_query :: string

text \<open>
  \<^verbatim>\<open>results.get('distances', [[0]])[0][0] if 'distances' in results else 1.0\<close>
\<close>

definition similarity_score :: "query_result \<Rightarrow> py_exception + real" where
  "similarity_score results =
     (case distances results of
        Absent \<Rightarrow> Inr 1
      | Null \<Rightarrow> Inl TypeError
      | Val ds \<Rightarrow> (case index0 ds of Inl e \<Rightarrow> Inl e | Inr d0 \<Rightarrow> index0 d0))"

text \<open>
  \<^verbatim>\<open>results['metadatas'][0][0] if 'metadatas' in results and results['metadatas'][0] else {}\<close>;
  an entry of the list may be \<^verbatim>\<open>None\<close>.
\<close>

definition first_metadata :: "query_result \<Rightarrow> py_exception + metadata option" where
  "first_metadata results =
     (case metadatas results of
        Absent \<Rightarrow> Inr (Some Map.empty)
      | Null \<Rightarrow> Inl TypeError
      | Val ms \<Rightarrow>
          (case index0 ms of
             Inl e \<Rightarrow> Inl e
           | Inr m0 \<Rightarrow> (case m0 of [] \<Rightarrow> Inr (Some Map.empty) | m # _ \<Rightarrow> Inr m)))"

text \<open>\<^verbatim>\<open>metadata.get('module')\<close>, which raises when the entry is \<^verbatim>\<open>None\<close>.\<close>

definition stored_module :: "query_result \<Rightarrow> py_exception + string option" where
  "stored_module results =
     (case first_metadata results of
        Inl e \<Rightarrow> Inl e
      | Inr None \<Rightarrow> Inl AttributeError
      | Inr (Some md) \<Rightarrow> Inr (md ''module''))"

text \<open>
  The body of the \<^verbatim>\<open>try\<close> of \<^verbatim>\<open>check_existing_query\<close>, after the store has
  answered: \<open>Inl\<close> is an exception raised inside it, \<open>Inr\<close> the value it returns (or
  \<open>None\<close> when it falls through).
\<close>

definition match_existing ::
  "query_result option \<Rightarrow> string option \<Rightarrow> py_exception + existing option" where
  "match_existing results modul =
     (case results of
        None \<Rightarrow> Inr None
      | Some r \<Rightarrow>
          (case documents r of
             Absent \<Rightarrow> Inl KeyError
           | Null \<Rightarrow> Inr None
           | Val [] \<Rightarrow> Inr None
           | Val ([] # _) \<Rightarrow> Inr None
           | Val ((document # _) # _) \<Rightarrow>
               (case similarity_score r of
                  Inl e \<Rightarrow> Inl e
                | Inr score \<Rightarrow>
                    if score < 0.25 then
                      (let parts = split1 newline document in
                       if length parts > 1 then
                         (if truthy modul then
                            (case stored_module r of
                               Inl e \<Rightarrow> Inl e
                             | Inr stored \<Rightarrow>
                                 if truthy stored \<and> stored \<noteq> modul then Inr None
                                 else Inr (Some \<lparr>found_response = parts ! 1,
                                                 found_query = parts ! 0\<rparr>))
                          else Inr (Some \<lparr>found_response = parts ! 1,
                                          found_query = parts ! 0\<rparr>))
                       else Inr None)
                    else Inr None)))"

text \<open>
  \<^verbatim>\<open>check_existing_query\<close>: the store's call is inside the \<^verbatim>\<open>try\<close>, and every
  exception is printed and answered with \<^verbatim>\<open>None\<close>.
\<close>

definition check_existing_query ::
  "query_result option outcome \<Rightarrow> string option \<Rightarrow> existing option" where
  "check_existing_query answered modul =
     (case answered of
        Raises e \<Rightarrow> None
      | Returns results \<Rightarrow>
          (case match_existing results modul of Inl e \<Rightarrow> None | Inr found \<Rightarrow> found))"

subsection \<open>State, requests and responses\<close>

text \<open>\<^verbatim>\<open>QueryResponse\<close>, and the dictionaries the endpoints return in its shape.\<close>

record query_response =
  response :: string
  resp_module :: "string option"
  source :: string
  task_id :: "string option"

text \<open>\<^verbatim>\<open>QueryRequest\<close>: \<^verbatim>\<open>query: str\<close>, \<^verbatim>\<open>module: Optional[str] = None\<close>.\<close>

record query_request =
  query :: string
  req_module :: "string option"

text \<open>The current user; the endpoints read only its \<^verbatim>\<open>username\<close>.\<close>

record user =
  username :: string

text \<open>An entry of \<^verbatim>\<open>active_requests\<close>.\<close>

record cache_entry =
  cache_response :: query_response
  cache_completed :: bool
  cache_timestamp :: datetime

text \<open>An entry of \<^verbatim>\<open>background_task_results\<close>.\<close>

record task_result =
  task_response :: string
  task_module :: "string option"
  task_source :: string
  task_completed :: bool
  task_timestamp :: datetime

text \<open>The keyword arguments of a scheduled \<^verbatim>\<open>generate_ai_response_task\<close>.\<close>

record task_args =
  arg_task_id :: string
  arg_query :: string
  arg_context :: "string list"
  arg_module :: "string option"
  arg_username :: string

text \<open>
  The calls with an effect outside the function that makes them:
  \<^verbatim>\<open>_generate_request_hash(username, query, module)\<close>,
  \<^verbatim>\<open>chroma_db.query_collection(collection, text)\<close>,
  \<^verbatim>\<open>background_tasks.add_task(..., task_id)\<close>,
  \<^verbatim>\<open>ai_model.generate_response(query)\<close>,
  \<^verbatim>\<open>store_chat_history(user_id, query, response)\<close> and the assignment
  \<^verbatim>\<open>background_task_results[task_id] = ...\<close>.
\<close>

datatype event =
  Fingerprint string string "string option"
| QueryCollection string string
| AddTask string
| GenerateResponse string
| StoreChatHistory string string string
| TaskResult string

record state =
  active_requests :: "string \<rightharpoonup> cache_entry"
  background_task_results :: "string \<rightharpoonup> task_result"
  background_tasks :: "task_args list"
  trace :: "event list"

definition init_state :: state where
  "init_state =
     \<lparr>active_requests = Map.empty, background_task_results = Map.empty,
      background_tasks = [], trace = []\<rparr>"

definition log_event :: "event \<Rightarrow> state \<Rightarrow> state" where
  "log_event e s = s\<lparr>trace := trace s @ [e]\<rparr>"

subsection \<open>The chat endpoint\<close>

text \<open>
  What the environment answers during one call of \<^verbatim>\<open>chat_with_bot\<close>:
  \<^verbatim>\<open>datetime.now()\<close> of the expiry test, the store's answer to the query on
  \<^verbatim>\<open>user_queries\<close>, \<^verbatim>\<open>datetime.now()\<close> of the cache entry,
  \<^verbatim>\<open>int(time.time() * 1000)\<close>, and the store's answer to the context query.
\<close>

record chat_env =
  now_dedup :: datetime
  existing_answered :: "query_result option outcome"
  now_cached :: datetime
  time_ms :: int
  context_answered :: "query_result option outcome"

definition get_collection_name_for_module :: "string \<Rightarrow> string" where
  "get_collection_name_for_module m =
     (if m = ''1'' then ''iso_bot''
      else if m = ''2'' then ''risk_bot''
      else if m = ''3'' then ''compliance_coach''
      else if m = ''4'' then ''audit_buddy''
      else if m = ''5'' then ''policy_navigator''
      else if m = ''6'' then ''security_advisor''
      else ''qa_pairs'')"

text \<open>
  The test of \<^verbatim>\<open>active_requests\<close>: a completed entry is returned while it is at
  most 300 seconds old and deleted when it is older; then, and when there is no
  completed entry, the request goes on.
\<close>

definition cached_response :: "datetime \<Rightarrow> string \<Rightarrow> state \<Rightarrow> query_response option \<times> state" where
  "cached_response now request_hash s =
     (case active_requests s request_hash of
        None \<Rightarrow> (None, s)
      | Some cached_result \<Rightarrow>
          if cache_completed cached_result then
            (if total_seconds (now - cache_timestamp cached_result) > 300
             then (None, s\<lparr>active_requests := (active_requests s)(request_hash := None)\<rparr>)
             else (Some (cache_response cached_result), s))
          else (None, s))"

text \<open>A stored answer was found: it is cached under the request's hash and returned.\<close>

definition database_answer ::
  "datetime \<Rightarrow> query_request \<Rightarrow> string \<Rightarrow> existing \<Rightarrow> state \<Rightarrow> query_response \<times> state" where
  "database_answer now query_request request_hash existing_query s =
     (let response_data =
            \<lparr>response = found_response existing_query,
             resp_module = req_module query_request,
             source = ''database'', task_id = None\<rparr>
      in (response_data,
          s\<lparr>active_requests := (active_requests s)(request_hash \<mapsto>
               \<lparr>cache_response = response_data, cache_completed = True,
                cache_timestamp = now\<rparr>)\<rparr>))"

text \<open>\<^verbatim>\<open>task_id = f"task_{int(time.time() * 1000)}_{hash(request_hash)}"\<close>\<close>

definition make_task_id :: "int \<Rightarrow> int \<Rightarrow> string" where
  "make_task_id ms h = ''task_'' @ str_int ms @ ''_'' @ str_int h"

text \<open>
  \<^verbatim>\<open>results['documents'][0]\<close> when the results, the key and its list are all truthy;
  the empty context otherwise.
\<close>

definition context_of :: "query_result option \<Rightarrow> string list" where
  "context_of results =
     (case results of
        None \<Rightarrow> []
      | Some r \<Rightarrow> (case documents r of Val (d # _) \<Rightarrow> d | _ \<Rightarrow> []))"

definition processing_response :: "string option \<Rightarrow> string \<Rightarrow> query_response" where
  "processing_response modul tid =
     \<lparr>response = ''I'm processing your question. Please wait a moment...'',
      resp_module = modul, source = ''processing'', task_id = Some tid\<rparr>"

definition add_task :: "task_args \<Rightarrow> state \<Rightarrow> state" where
  "add_task a s =
     log_event (AddTask (arg_task_id a)) (s\<lparr>background_tasks := background_tasks s @ [a]\<rparr>)"

text \<open>
  No stored answer: the task id is made, the context is searched when a module is
  given, the worker is scheduled, and the placeholder is returned. An exception of the
  context search becomes the HTTP error 500.
\<close>

definition start_generation ::
  "chat_env \<Rightarrow> user \<Rightarrow> query_request \<Rightarrow> string \<Rightarrow> state \<Rightarrow> (http_error + query_response) \<times> state" where
  "start_generation env current_user query_request tid s =
     (let schedule = (\<lambda>context s'.
            (Inr (processing_response (req_module query_request) tid),
             add_task \<lparr>arg_task_id = tid, arg_query = query query_request,
                       arg_context = context, arg_module = req_module query_request,
                       arg_username = username current_user\<rparr> s'))
      in if truthy (req_module query_request) then
           (let s1 = log_event (QueryCollection
                        (get_collection_name_for_module (the (req_module query_request)))
                        (query query_request)) s
            in case context_answered env of
                 Raises e \<Rightarrow> (Inl (HTTPException 500 (''Error processing request: '' @ e)), s1)
               | Returns results \<Rightarrow> schedule (context_of results) s1)
         else schedule [] s)"

definition chat_with_bot ::
  "(string \<Rightarrow> string) \<Rightarrow> (string \<Rightarrow> int) \<Rightarrow> chat_env \<Rightarrow> user \<Rightarrow> query_request \<Rightarrow> state
     \<Rightarrow> (http_error + query_response) \<times> state" where
  "chat_with_bot md5 pyhash env current_user query_request s =
     (let request_hash = generate_request_hash md5 (username current_user)
                           (query query_request) (req_module query_request);
          s0 = log_event (Fingerprint (username current_user) (query query_request)
                            (req_module query_request)) s
      in case cached_response (now_dedup env) request_hash s0 of
           (Some cached, s1) \<Rightarrow> (Inr cached, s1)
         | (None, s1) \<Rightarrow>
             (let s2 = log_event (QueryCollection ''user_queries'' (query query_request)) s1
              in case check_existing_query (existing_answered env) (req_module query_request) of
                   Some existing_query \<Rightarrow>
                     (case database_answer (now_cached env) query_request request_hash
                             existing_query s2 of
                        (response_data, s3) \<Rightarrow> (Inr response_data, s3))
                 | None \<Rightarrow>
                     start_generation env current_user query_request
                       (make_task_id (time_ms env) (pyhash request_hash)) s2))"

text \<open>
  Modelled from the spec: the gate in front of the handler, which is not code under
  \<^verbatim>\<open>src/\<close> (the framework's validation of the body against \<^verbatim>\<open>QueryRequest\<close>, and
  the dependency \<^verbatim>\<open>get_current_active_user\<close> of \<^verbatim>\<open>app.auth\<close>). The spec has a
  malformed submission, one with a missing subject or query, rejected before any
  fingerprint is computed or work is scheduled. So the request as it arrives is the JSON
  body's two keys and what the dependency answered, and the handler is called only when
  the dependency returned a user and \<^verbatim>\<open>query\<close> is present and a string;
  \<^verbatim>\<open>module\<close> may be missing or null.
\<close>

record raw_body =
  raw_query :: "string field"
  raw_module :: "string field"

definition parse_query_request :: "raw_body \<Rightarrow> query_request option" where
  "parse_query_request body =
     (case raw_query body of
        Val q \<Rightarrow> Some \<lparr>query = q,
                       req_module = (case raw_module body of Val m \<Rightarrow> Some m | _ \<Rightarrow> None)\<rparr>
      | _ \<Rightarrow> None)"

definition post_chat ::
  "(string \<Rightarrow> string) \<Rightarrow> (string \<Rightarrow> int) \<Rightarrow> chat_env \<Rightarrow> http_error + user \<Rightarrow> raw_body \<Rightarrow> state
     \<Rightarrow> (http_error + query_response) \<times> state" where
  "post_chat md5 pyhash env authenticated body s =
     (case authenticated of
        Inl e \<Rightarrow> (Inl e, s)
      | Inr current_user \<Rightarrow>
          (case parse_query_request body of
             None \<Rightarrow> (Inl (HTTPException 422 ''Unprocessable Entity''), s)
           | Some query_request \<Rightarrow> chat_with_bot md5 pyhash env current_user query_request s))"

subsection \<open>The polling endpoint\<close>

definition get_task_status ::
  "datetime \<Rightarrow> string \<Rightarrow> state \<Rightarrow> (http_error + query_response) \<times> state" where
  "get_task_status now tid s =
     (case background_task_results s tid of
        None \<Rightarrow> (Inl (HTTPException 404 ''Task not found''), s)
      | Some result \<Rightarrow>
          if task_completed result then
            (Inr \<lparr>response = task_response result, resp_module = task_module result,
                  source = task_source result, task_id = None\<rparr>,
             if total_seconds (now - task_timestamp result) > 300
             then s\<lparr>background_task_results := (background_task_results s)(tid := None)\<rparr>
             else s)
          else
            (Inr \<lparr>response = ''Still processing your request...'', resp_module = None,
                  source = ''processing'', task_id = Some tid\<rparr>, s))"

subsection \<open>The background worker\<close>

text \<open>The dictionary \<^verbatim>\<open>ai_model.generate_response\<close> returns (its usage left out).\<close>

record ai_response =
  success :: bool
  ai_text :: string

text \<open>
  The generator's call under \<^verbatim>\<open>asyncio.wait_for(..., timeout=60.0)\<close>: it returns in
  time, the 60 seconds pass, or it raises.
\<close>

datatype generated = Generated ai_response | TimedOut | GeneratorRaised string

text \<open>
  What the environment answers during one run of the worker: the generator, whether
  \<^verbatim>\<open>store_chat_history\<close> raised, and \<^verbatim>\<open>datetime.now()\<close> of the record.
\<close>

record worker_env =
  generator :: generated
  stored :: "unit outcome"
  now_result :: datetime

definition fallback_response :: "string \<Rightarrow> ai_response" where
  "fallback_response q =
     \<lparr>success = True,
      ai_text = ''I apologize for the delay in responding to your question about ''
        @ [CHR 0x27] @ q @ [CHR 0x27]
        @ ''. Our AI service is experiencing high load at the moment. ''
        @ ''Please try again in a few moments, or consider rephrasing your question ''
        @ ''to be more specific.''\<rparr>"

text \<open>The inner \<^verbatim>\<open>try\<close>: only the timeout is caught there.\<close>

definition awaited_response :: "generated \<Rightarrow> string \<Rightarrow> string + ai_response" where
  "awaited_response g q =
     (case g of
        Generated r \<Rightarrow> Inr r
      | TimedOut \<Rightarrow> Inr (fallback_response q)
      | GeneratorRaised e \<Rightarrow> Inl e)"

definition set_task_result :: "string \<Rightarrow> task_result \<Rightarrow> state \<Rightarrow> state" where
  "set_task_result tid r s =
     log_event (TaskResult tid)
       (s\<lparr>background_task_results := (background_task_results s)(tid \<mapsto> r)\<rparr>)"

text \<open>The handler of the outer \<^verbatim>\<open>try\<close>.\<close>

definition store_exception :: "worker_env \<Rightarrow> task_args \<Rightarrow> string \<Rightarrow> state \<Rightarrow> state" where
  "store_exception env a e s =
     set_task_result (arg_task_id a)
       \<lparr>task_response = ''Error processing request: '' @ e, task_module = arg_module a,
        task_source = ''error'', task_completed = True, task_timestamp = now_result env\<rparr> s"

definition generate_ai_response_task :: "worker_env \<Rightarrow> task_args \<Rightarrow> state \<Rightarrow> state" where
  "generate_ai_response_task env a s =
     (let s1 = log_event (GenerateResponse (arg_query a)) s
      in case awaited_response (generator env) (arg_query a) of
           Inl e \<Rightarrow> store_exception env a e s1
         | Inr resp \<Rightarrow>
             if success resp then
               (let s2 = log_event (StoreChatHistory (arg_username a) (arg_query a) (ai_text resp)) s1
                in case stored env of
                     Raises e \<Rightarrow> store_exception env a e s2
                   | Returns _ \<Rightarrow>
                       set_task_result (arg_task_id a)
                         \<lparr>task_response = ai_text resp, task_module = arg_module a,
                          task_source = ''deepseek'', task_completed = True,
                          task_timestamp = now_result env\<rparr> s2)
             else
               set_task_result (arg_task_id a)
                 \<lparr>task_response = ''Failed to generate response'', task_module = arg_module a,
                  task_source = ''error'', task_completed = True,
                  task_timestamp = now_result env\<rparr> s1)"

subsection \<open>Runs of the service\<close>

text \<open>
  One step of the service: a request to the chat endpoint, a poll, or the run of the
  scheduled task at a position of the queue (which leaves the queue), in any order.
\<close>

datatype step =
  Chat chat_env "http_error + user" raw_body
| Poll datetime string
| RunTask worker_env nat

fun exec_step :: "(string \<Rightarrow> string) \<Rightarrow> (string \<Rightarrow> int) \<Rightarrow> state \<Rightarrow> step \<Rightarrow> state" where
  "exec_step md5 pyhash s (Chat env authenticated body) =
     snd (post_chat md5 pyhash env authenticated body s)"
| "exec_step md5 pyhash s (Poll now tid) = snd (get_task_status now tid s)"
| "exec_step md5 pyhash s (RunTask env i) =
     (if i < length (background_tasks s)
      then generate_ai_response_task env (background_tasks s ! i)
             (s\<lparr>background_tasks := take i (background_tasks s) @ drop (Suc i) (background_tasks s)\<rparr>)
      else s)"

definition run :: "(string \<Rightarrow> string) \<Rightarrow> (string \<Rightarrow> int) \<Rightarrow> step list \<Rightarrow> state" where
  "run md5 pyhash steps = foldl (exec_step md5 pyhash) init_state steps"

text \<open>The invariant of the registry: every record in it is completed.\<close>

definition registry_completed :: "state \<Rightarrow> bool" where
  "registry_completed s =
     (\<forall>t r. background_task_results s t = Some r \<longrightarrow> task_completed r)"

subsection \<open>Sample inputs\<close>

text \<open>
  Concrete requests and environments, at which the theorems below are instantiated.
  In them the digest is the identity and the hash of a string is its length.
\<close>

definition sample_user :: user where
  "sample_user = \<lparr>username = ''alice''\<rparr>"

definition sample_body :: raw_body where
  "sample_body = \<lparr>raw_query = Val ''What is ISO 27001?'', raw_module = Absent\<rparr>"

text \<open>The store knows no similar query; it is second 0, millisecond 1000.\<close>

definition no_answer_env :: chat_env where
  "no_answer_env =
     \<lparr>now_dedup = 0, existing_answered = Returns None, now_cached = 0,
      time_ms = 1000, context_answered = Returns None\<rparr>"

text \<open>The generator takes more than 60 seconds; the history is stored.\<close>

definition slow_worker_env :: worker_env where
  "slow_worker_env = \<lparr>generator = TimedOut, stored = Returns (), now_result = 5000000\<rparr>"

definition sample_request :: query_request where
  "sample_request = \<lparr>query = ''What is ISO 27001?'', req_module = None\<rparr>"

text \<open>The same request with the module \<^verbatim>\<open>"1"\<close>.\<close>

definition module_request :: query_request where
  "module_request = \<lparr>query = ''What is ISO 27001?'', req_module = Some ''1''\<rparr>"

text \<open>The same environment one millisecond later.\<close>

definition later_env :: chat_env where
  "later_env = no_answer_env\<lparr>time_ms := 1001\<rparr>"

text \<open>
  A stored document at distance 0.1 that has no response part (no newline), and one
  that has, stored for the module \<^verbatim>\<open>"1"\<close>.
\<close>

definition stored_without_response :: query_result where
  "stored_without_response =
     \<lparr>documents = Val [[''What is ISO 27001?'']], distances = Val [[1 / 10]],
      metadatas = Val [[Some Map.empty]]\<rparr>"

definition stored_answer :: query_result where
  "stored_answer =
     \<lparr>documents = Val [[''What is ISO 27001?'' @ [newline] @ ''An ISMS standard.'']],
      distances = Val [[1 / 10]],
      metadatas = Val [[Some [''module'' \<mapsto> ''1'']]]\<rparr>"

definition headless_env :: chat_env where
  "headless_env = no_answer_env\<lparr>existing_answered := Returns (Some stored_without_response)\<rparr>"

definition answer_env :: chat_env where
  "answer_env = no_answer_env\<lparr>existing_answered := Returns (Some stored_answer)\<rparr>"

text \<open>A scheduled task, and workers whose generator answers in time.\<close>

definition sample_args :: task_args where
  "sample_args =
     \<lparr>arg_task_id = ''task_1000_29'', arg_query = ''What is ISO 27001?'', arg_context = [],
      arg_module = None, arg_username = ''alice''\<rparr>"

definition answering_env :: worker_env where
  "answering_env =
     \<lparr>generator = Generated \<lparr>success = True, ai_text = ''An ISMS standard.''\<rparr>,
      stored = Returns (), now_result = 5000000\<rparr>"

definition failing_store_env :: worker_env where
  "failing_store_env = answering_env\<lparr>stored := Raises ''collection not found''\<rparr>"

definition timeout_failing_store_env :: worker_env where
  "timeout_failing_store_env = slow_worker_env\<lparr>stored := Raises ''collection not found''\<rparr>"

section \<open>Evaluation\<close>

lemma show_nat_digit: "n < 10 \<Longrightarrow> show_nat n = [digit_char n]"
  by (simp add: show_nat.simps)

lemma show_nat_step:
  "\<not> n < 10 \<Longrightarrow> show_nat n = show_nat (n div 10) @ [digit_char (n mod 10)]"
  by (subst show_nat.simps) simp

lemmas eval_defs =
  run_def init_state_def post_chat_def parse_query_request_def chat_with_bot_def
  generate_request_hash_def request_string_def module_or_none_def truthy_def cached_response_def
  check_existing_query_def match_existing_def database_answer_def start_generation_def
  make_task_id_def str_int_def show_nat_digit show_nat_step digit_char_def
  processing_response_def add_task_def log_event_def context_of_def
  get_task_status_def generate_ai_response_task_def awaited_response_def
  fallback_response_def set_task_result_def store_exception_def total_seconds_def
  similarity_score_def stored_module_def first_metadata_def split1_def newline_def
  get_collection_name_for_module_def Let_def

lemmas sample_defs =
  sample_user_def sample_body_def sample_request_def no_answer_env_def
  slow_worker_env_def later_env_def sample_args_def answering_env_def failing_store_env_def
  timeout_failing_store_env_def stored_without_response_def stored_answer_def
  answer_env_def headless_env_def module_request_def

section \<open>The task registry holds completed records only\<close>

lemma chat_with_bot_registry:
  "background_task_results (snd (chat_with_bot md5 pyhash env u req s))
     = background_task_results s"
  by (simp add: chat_with_bot_def cached_response_def database_answer_def
      start_generation_def add_task_def log_event_def Let_def
      split: option.splits prod.splits outcome.splits if_splits)

lemma post_chat_registry:
  "background_task_results (snd (post_chat md5 pyhash env au body s))
     = background_task_results s"
  by (simp add: post_chat_def chat_with_bot_registry split: sum.splits option.splits)

lemma get_task_status_registry:
  "background_task_results (snd (get_task_status now tid s)) t = Some r \<Longrightarrow>
   background_task_results s t = Some r"
  by (auto simp add: get_task_status_def split: option.splits if_splits)

lemma worker_registry:
  "background_task_results (generate_ai_response_task env a s) t = Some r \<Longrightarrow>
   task_completed r \<or> background_task_results s t = Some r"
  by (auto simp add: generate_ai_response_task_def store_exception_def set_task_result_def
      log_event_def Let_def split: sum.splits outcome.splits if_splits)

lemma worker_writes_completed:
  "\<exists>r. background_task_results (generate_ai_response_task env a s) (arg_task_id a) = Some r
       \<and> task_completed r"
  by (simp add: generate_ai_response_task_def store_exception_def set_task_result_def
      log_event_def Let_def split: sum.splits outcome.splits)

lemma exec_step_completed:
  assumes inv: "registry_completed s"
  shows "registry_completed (exec_step md5 pyhash s st)"
proof (cases st)
  case (Chat env au body)
  with inv show ?thesis
    by (simp add: registry_completed_def post_chat_registry)
next
  case (Poll now tid)
  with inv show ?thesis
    unfolding registry_completed_def
    by (metis exec_step.simps(2) get_task_status_registry)
next
  case (RunTask env i)
  show ?thesis
  proof (cases "i < length (background_tasks s)")
    case True
    let ?s = "s\<lparr>background_tasks :=
                 take i (background_tasks s) @ drop (Suc i) (background_tasks s)\<rparr>"
    from inv have "registry_completed ?s"
      by (simp add: registry_completed_def)
    then have "registry_completed (generate_ai_response_task env (background_tasks s ! i) ?s)"
      unfolding registry_completed_def using worker_registry by blast
    then show ?thesis using True RunTask by simp
  next
    case False
    with inv RunTask show ?thesis by simp
  qed
qed

lemma foldl_completed:
  "registry_completed s \<Longrightarrow> registry_completed (foldl (exec_step md5 pyhash) s steps)"
  by (induction steps arbitrary: s) (simp_all add: exec_step_completed)

lemma run_completed: "registry_completed (run md5 pyhash steps)"
  unfolding run_def
  by (rule foldl_completed) (simp add: registry_completed_def init_state_def)

text \<open>
  Claim C9. Every record of \<^verbatim>\<open>background_task_results\<close> has its completion flag
  set: whatever requests, polls and worker runs the service has gone through from its
  start, a record found in the registry is completed; and every run of the worker, on
  each of its exit paths, leaves a completed record under its task id. So the registry
  never holds a pending record.
\<close>

theorem registry_holds_only_completed:
  "(background_task_results (run md5 pyhash steps) t = Some r \<longrightarrow> task_completed r)
   \<and> (\<exists>r'. background_task_results (generate_ai_response_task env a s) (arg_task_id a)
              = Some r' \<and> task_completed r')"
  using run_completed [of md5 pyhash steps] worker_writes_completed [of env a s]
  by (simp add: registry_completed_def)

theorem registry_holds_only_completed_witness:
  "\<exists>r. background_task_results
          (run id (int \<circ> length)
             [Chat no_answer_env (Inr sample_user) sample_body, RunTask slow_worker_env 0])
          ''task_1000_29'' = Some r
       \<and> task_completed r"
proof -
  let ?steps = "[Chat no_answer_env (Inr sample_user) sample_body, RunTask slow_worker_env 0]"
  have found: "background_task_results (run id (int \<circ> length) ?steps) ''task_1000_29''
      = Some \<lparr>task_response = ai_text (fallback_response ''What is ISO 27001?''),
               task_module = None, task_source = ''deepseek'', task_completed = True,
               task_timestamp = 5000000\<rparr>"
    by (simp add: eval_defs sample_defs)
  from registry_holds_only_completed [of id "int \<circ> length" ?steps "''task_1000_29''"]
    found
  show ?thesis by blast
qed

section \<open>Evaluated runs\<close>

lemma sample_chat:
  "chat_with_bot id (int \<circ> length) no_answer_env sample_user sample_request init_state
   = (Inr (processing_response None ''task_1000_29''),
      \<lparr>active_requests = Map.empty, background_task_results = Map.empty,
       background_tasks = [sample_args],
       trace = [Fingerprint ''alice'' ''What is ISO 27001?'' None,
                QueryCollection ''user_queries'' ''What is ISO 27001?'',
                AddTask ''task_1000_29'']\<rparr>)"
  by (simp add: eval_defs sample_defs)

lemma sample_chat_later:
  "last (trace (snd (chat_with_bot id (int \<circ> length) later_env sample_user sample_request
      init_state))) = AddTask ''task_1001_29''"
  by (simp add: eval_defs sample_defs)

lemma sample_run_record:
  "background_task_results
     (run id (int \<circ> length)
        [Chat no_answer_env (Inr sample_user) sample_body, RunTask slow_worker_env 0])
     ''task_1000_29''
   = Some \<lparr>task_response = ai_text (fallback_response ''What is ISO 27001?''),
            task_module = None, task_source = ''deepseek'', task_completed = True,
            task_timestamp = 5000000\<rparr>"
  by (simp add: eval_defs sample_defs)

lemma sample_database_hit:
  "chat_with_bot id (int \<circ> length) answer_env sample_user module_request init_state
   = (Inr \<lparr>response = ''An ISMS standard.'', resp_module = Some ''1'',
            source = ''database'', task_id = None\<rparr>,
      \<lparr>active_requests = [''alice:What is ISO 27001?:1'' \<mapsto>
          \<lparr>cache_response = \<lparr>response = ''An ISMS standard.'', resp_module = Some ''1'',
              source = ''database'', task_id = None\<rparr>,
           cache_completed = True, cache_timestamp = 0\<rparr>],
       background_task_results = Map.empty, background_tasks = [],
       trace = [Fingerprint ''alice'' ''What is ISO 27001?'' (Some ''1''),
                QueryCollection ''user_queries'' ''What is ISO 27001?'']\<rparr>)"
  by (simp add: eval_defs sample_defs)

section \<open>Polling\<close>

text \<open>
  Claim C1, as the code has it. The chat endpoint creates no record when it schedules
  the worker, so a poll on the task id it returned, made before the worker has run,
  finds nothing: it answers 404 \<^verbatim>\<open>Task not found\<close>, the answer an unknown id gets,
  and not the status \<^verbatim>\<open>processing\<close>.
\<close>

theorem pending_task_polls_not_found:
  assumes "chat_with_bot md5 pyhash env u req s = (Inr r, s')"
    and "task_id r = Some tid"
    and "background_task_results s tid = None"
  shows "get_task_status now tid s' = (Inl (HTTPException 404 ''Task not found''), s')"
proof -
  have "background_task_results s' = background_task_results s"
    using chat_with_bot_registry [of md5 pyhash env u req s] assms(1) by simp
  with assms(3) show ?thesis by (simp add: get_task_status_def)
qed

theorem pending_task_polls_not_found_witness:
  "\<exists>r s'. chat_with_bot id (int \<circ> length) no_answer_env sample_user sample_request init_state
            = (Inr r, s')
     \<and> source r = ''processing'' \<and> task_id r = Some ''task_1000_29''
     \<and> background_task_results init_state ''task_1000_29'' = None
     \<and> get_task_status 1 ''task_1000_29'' s'
         = (Inl (HTTPException 404 ''Task not found''), s')"
proof -
  have fresh: "background_task_results init_state ''task_1000_29'' = None"
    by (simp add: init_state_def)
  have handle: "task_id (processing_response None ''task_1000_29'') = Some ''task_1000_29''"
    by (simp add: processing_response_def)
  from pending_task_polls_not_found [OF sample_chat handle fresh, of 1] sample_chat fresh
  show ?thesis by (simp add: processing_response_def)
qed

text \<open>
  Claim C2, amended. A poll on a completed record older than 300 seconds returns the
  record's payload once more and deletes the record; the next poll on that id answers
  404 \<^verbatim>\<open>Task not found\<close>.
\<close>

theorem expired_record_returned_then_evicted:
  assumes "background_task_results s tid = Some r"
    and "task_completed r"
    and "total_seconds (now - task_timestamp r) > 300"
  shows "get_task_status now tid s =
           (Inr \<lparr>response = task_response r, resp_module = task_module r,
                 source = task_source r, task_id = None\<rparr>,
            s\<lparr>background_task_results := (background_task_results s)(tid := None)\<rparr>)
       \<and> fst (get_task_status later tid (snd (get_task_status now tid s)))
           = Inl (HTTPException 404 ''Task not found'')"
  using assms by (simp add: get_task_status_def)

theorem expired_record_returned_then_evicted_witness:
  "fst (get_task_status 307000000 ''task_1000_29''
          (snd (get_task_status 306000000 ''task_1000_29''
             (run id (int \<circ> length)
                [Chat no_answer_env (Inr sample_user) sample_body,
                 RunTask slow_worker_env 0]))))
   = Inl (HTTPException 404 ''Task not found'')"
proof -
  have old: "total_seconds (306000000 - task_timestamp
      \<lparr>task_response = ai_text (fallback_response ''What is ISO 27001?''),
       task_module = None, task_source = ''deepseek'', task_completed = True,
       task_timestamp = 5000000\<rparr>) > 300"
    by (simp add: total_seconds_def)
  have flag: "task_completed
      \<lparr>task_response = ai_text (fallback_response ''What is ISO 27001?''),
       task_module = None, task_source = ''deepseek'', task_completed = True,
       task_timestamp = 5000000\<rparr>"
    by simp
  from expired_record_returned_then_evicted [OF sample_run_record flag old, of 307000000]
  show ?thesis by (rule conjunct2)
qed

text \<open>
  The payload of an expired record does reach the poller: the record written at second 5
  is polled at second 306, and the poll returns its text.
\<close>

theorem expired_record_payload_returned:
  "total_seconds (306000000 - 5000000) > 300
   \<and> fst (get_task_status 306000000 ''task_1000_29''
          (run id (int \<circ> length)
             [Chat no_answer_env (Inr sample_user) sample_body, RunTask slow_worker_env 0]))
     = Inr \<lparr>response = ai_text (fallback_response ''What is ISO 27001?''),
            resp_module = None, source = ''deepseek'', task_id = None\<rparr>"
  by (simp add: get_task_status_def sample_run_record total_seconds_def)

section \<open>Reuse of a stored answer\<close>

lemma accepted_iff:
  assumes "documents r = Val ((doc # ds) # dss)"
    and "similarity_score r = Inr d"
    and "truthy m \<longrightarrow> stored_module r = Inr sm"
  shows "(check_existing_query (Returns (Some r)) m \<noteq> None)
     \<longleftrightarrow> (d < 0.25 \<and> newline \<in> set doc \<and> (\<not> truthy m \<or> \<not> truthy sm \<or> sm = m))"
  using assms
  by (auto simp add: check_existing_query_def match_existing_def split1_def Let_def)

lemma cached_response_log:
  "fst (cached_response now h (log_event e s)) = fst (cached_response now h s)"
  by (simp add: cached_response_def log_event_def split: option.splits)

lemma chat_database_iff:
  assumes "fst (cached_response (now_dedup env)
             (generate_request_hash md5 (username u) (query req) (req_module req)) s) = None"
  shows "(\<exists>resp. fst (chat_with_bot md5 pyhash env u req s) = Inr resp
            \<and> source resp = ''database'')
     \<longleftrightarrow> check_existing_query (existing_answered env) (req_module req) \<noteq> None"
proof -
  let ?h = "generate_request_hash md5 (username u) (query req) (req_module req)"
  let ?s0 = "log_event (Fingerprint (username u) (query req) (req_module req)) s"
  obtain s1 where c: "cached_response (now_dedup env) ?h ?s0 = (None, s1)"
    using assms cached_response_log [of "now_dedup env" ?h _ s]
    by (metis prod.collapse)
  show ?thesis
    by (auto simp add: chat_with_bot_def c Let_def database_answer_def start_generation_def
        processing_response_def split: option.splits outcome.splits)
qed

text \<open>
  Claim C3, amended. When a submission reaches the lookup (no fresh completed entry of
  \<^verbatim>\<open>active_requests\<close> answers it) and the store returns a candidate with a distance
  (and, when the request names a module, a metadata dictionary), the submission is
  answered with the source \<^verbatim>\<open>database\<close> if and only if the distance is below 0.25,
  the stored document has a response part (it contains a newline), and the request's
  module is unset or empty, or the stored module is unset or empty, or the two are equal.
\<close>

theorem database_answer_iff:
  assumes "existing_answered env = Returns (Some r)"
    and "documents r = Val ((doc # ds) # dss)"
    and "similarity_score r = Inr d"
    and "truthy (req_module req) \<longrightarrow> stored_module r = Inr sm"
    and "fst (cached_response (now_dedup env)
           (generate_request_hash md5 (username u) (query req) (req_module req)) s) = None"
  shows "(\<exists>resp. fst (chat_with_bot md5 pyhash env u req s) = Inr resp
            \<and> source resp = ''database'')
     \<longleftrightarrow> (d < 0.25 \<and> newline \<in> set doc
          \<and> (\<not> truthy (req_module req) \<or> \<not> truthy sm \<or> sm = req_module req))"
  using chat_database_iff [OF assms(5), of pyhash] accepted_iff [OF assms(2,3,4)]
  by (simp add: assms(1))

theorem database_answer_iff_witness:
  "similarity_score stored_answer = Inr (1 / 10)
   \<and> stored_module stored_answer = Inr (Some ''1'')
   \<and> (\<exists>resp. fst (chat_with_bot id (int \<circ> length) answer_env sample_user module_request
                 init_state) = Inr resp
         \<and> source resp = ''database'')"
proof -
  have env: "existing_answered answer_env = Returns (Some stored_answer)"
    by (simp add: sample_defs)
  have docs: "documents stored_answer
      = Val [[''What is ISO 27001?'' @ [newline] @ ''An ISMS standard.'']]"
    by (simp add: sample_defs)
  have dist: "similarity_score stored_answer = Inr (1 / 10)"
    by (simp add: sample_defs similarity_score_def)
  have stored: "stored_module stored_answer = Inr (Some ''1'')"
    by (simp add: sample_defs stored_module_def first_metadata_def)
  then have stored': "truthy (req_module module_request)
      \<longrightarrow> stored_module stored_answer = Inr (Some ''1'')"
    by simp
  have lookup: "fst (cached_response (now_dedup answer_env)
      (generate_request_hash id (username sample_user) (query module_request)
         (req_module module_request)) init_state) = None"
    by (simp add: cached_response_def init_state_def)
  from database_answer_iff [OF env docs dist stored' lookup, of "int \<circ> length"] dist stored
  show ?thesis by (simp add: module_request_def)
qed

text \<open>
  A candidate at distance 0.1 for a request without a module is not reused when its
  document has no newline: the lookup answers \<^verbatim>\<open>None\<close> and the worker is scheduled.
\<close>

theorem near_candidate_without_response_not_reused:
  "similarity_score stored_without_response = Inr (1 / 10)
   \<and> check_existing_query (Returns (Some stored_without_response)) None = None
   \<and> fst (chat_with_bot id (int \<circ> length) headless_env sample_user sample_request init_state)
       = Inr (processing_response None ''task_1000_29'')"
  by (simp add: eval_defs sample_defs)

section \<open>The fingerprint\<close>

lemma split_at_separator:
  "x \<notin> set xs \<Longrightarrow> x \<notin> set xs' \<Longrightarrow>
   xs @ x # ys = xs' @ x # ys' \<longleftrightarrow> xs = xs' \<and> ys = ys'"
proof (induction xs arbitrary: xs')
  case Nil
  then show ?case by (cases xs') auto
next
  case (Cons a xs)
  then show ?case by (cases xs') auto
qed

text \<open>
  Claim C4, as the code has it. The fingerprint is the digest of the string
  \<^verbatim>\<open>username:query:module\<close>, with \<^verbatim>\<open>none\<close> for a missing or empty module and
  nothing escaped. So different triples are hashed from one and the same string,
  whatever the digest: a colon may stand in the user name or in the query, and a missing
  module reads like the module \<^verbatim>\<open>none\<close>. With it goes the cache: after user
  \<^verbatim>\<open>a\<close> got a stored answer to \<^verbatim>\<open>b:c\<close>, user \<^verbatim>\<open>a:b\<close> asking \<^verbatim>\<open>c\<close> is
  handed that answer, although the store knows nothing similar to the question.
\<close>

theorem colliding_fingerprints_share_answer:
  "request_string ''a:b'' ''c'' None = request_string ''a'' ''b:c'' None
   \<and> generate_request_hash md5 ''a:b'' ''c'' None = generate_request_hash md5 ''a'' ''b:c'' None
   \<and> generate_request_hash md5 ''alice'' ''What is ISO 27001?'' None
       = generate_request_hash md5 ''alice'' ''What is ISO 27001?'' (Some ''none'')
   \<and> fst (chat_with_bot md5 pyhash no_answer_env \<lparr>username = ''a:b''\<rparr>
            \<lparr>query = ''c'', req_module = None\<rparr>
            (snd (chat_with_bot md5 pyhash answer_env \<lparr>username = ''a''\<rparr>
                    \<lparr>query = ''b:c'', req_module = None\<rparr> init_state)))
       = Inr \<lparr>response = ''An ISMS standard.'', resp_module = None,
               source = ''database'', task_id = None\<rparr>"
  by (simp add: eval_defs sample_defs)

section \<open>The background worker\<close>

text \<open>
  Claim C5, amended. When the generator has produced an answer marked as a success (or
  the fallback after a timeout), the worker calls \<^verbatim>\<open>store_chat_history\<close> and waits
  for it, and only then writes the task record: generation, persistence, completion,
  in this order. When the persistence raises, the record written is an error record
  with the exception's message; when it returns, the record holds the answer.
\<close>

theorem record_written_after_persistence:
  assumes "awaited_response (generator env) (arg_query a) = Inr resp"
    and "success resp"
  shows "trace (generate_ai_response_task env a s)
           = trace s @ [GenerateResponse (arg_query a),
                        StoreChatHistory (arg_username a) (arg_query a) (ai_text resp),
                        TaskResult (arg_task_id a)]
     \<and> (\<forall>e. stored env = Raises e \<longrightarrow>
           background_task_results (generate_ai_response_task env a s) (arg_task_id a)
             = Some \<lparr>task_response = ''Error processing request: '' @ e,
                      task_module = arg_module a, task_source = ''error'',
                      task_completed = True, task_timestamp = now_result env\<rparr>)
     \<and> (stored env = Returns () \<longrightarrow>
           background_task_results (generate_ai_response_task env a s) (arg_task_id a)
             = Some \<lparr>task_response = ai_text resp,
                      task_module = arg_module a, task_source = ''deepseek'',
                      task_completed = True, task_timestamp = now_result env\<rparr>)"
  using assms
  by (simp add: generate_ai_response_task_def store_exception_def set_task_result_def
      log_event_def Let_def split: outcome.splits)

theorem record_written_after_persistence_witness:
  "awaited_response (generator answering_env) (arg_query sample_args)
     = Inr \<lparr>success = True, ai_text = ''An ISMS standard.''\<rparr>
   \<and> background_task_results
       (generate_ai_response_task answering_env sample_args init_state) ''task_1000_29''
     = Some \<lparr>task_response = ''An ISMS standard.'', task_module = None,
              task_source = ''deepseek'', task_completed = True, task_timestamp = 5000000\<rparr>"
proof -
  have gen: "awaited_response (generator answering_env) (arg_query sample_args)
     = Inr \<lparr>success = True, ai_text = ''An ISMS standard.''\<rparr>"
    by (simp add: sample_defs awaited_response_def)
  have ok: "success \<lparr>success = True, ai_text = ''An ISMS standard.''\<rparr>"
    by simp
  from record_written_after_persistence [OF gen ok, of init_state] gen
  show ?thesis by (simp add: sample_defs)
qed

text \<open>
  The record is written after the history has been stored, and what it holds depends
  on that call: when it raises, the generated answer is replaced by an error record.
\<close>

theorem completion_waits_for_persistence:
  "trace (generate_ai_response_task answering_env sample_args init_state)
     = [GenerateResponse ''What is ISO 27001?'',
        StoreChatHistory ''alice'' ''What is ISO 27001?'' ''An ISMS standard.'',
        TaskResult ''task_1000_29'']
   \<and> background_task_results
       (generate_ai_response_task failing_store_env sample_args init_state) ''task_1000_29''
     = Some \<lparr>task_response = ''Error processing request: collection not found'',
              task_module = None, task_source = ''error'', task_completed = True,
              task_timestamp = 5000000\<rparr>"
  by (simp add: eval_defs sample_defs)

text \<open>
  Claim C6, amended. When the generator's call exceeds the 60 seconds and the fallback
  answer is stored in the history without an exception, the worker writes a completed
  record with the fallback text and the source \<^verbatim>\<open>deepseek\<close>, and a poll returns it.
  When storing the history raises, the record written is completed too, but it is an
  error record with that exception's message. No exception leaves the worker.
\<close>

theorem timeout_gives_fallback:
  assumes "generator env = TimedOut"
  shows "(stored env = Returns () \<longrightarrow>
            background_task_results (generate_ai_response_task env a s) (arg_task_id a)
              = Some \<lparr>task_response = ai_text (fallback_response (arg_query a)),
                       task_module = arg_module a, task_source = ''deepseek'',
                       task_completed = True, task_timestamp = now_result env\<rparr>
          \<and> fst (get_task_status now (arg_task_id a) (generate_ai_response_task env a s))
              = Inr \<lparr>response = ai_text (fallback_response (arg_query a)),
                      resp_module = arg_module a, source = ''deepseek'', task_id = None\<rparr>)
     \<and> (\<forall>e. stored env = Raises e \<longrightarrow>
            background_task_results (generate_ai_response_task env a s) (arg_task_id a)
              = Some \<lparr>task_response = ''Error processing request: '' @ e,
                       task_module = arg_module a, task_source = ''error'',
                       task_completed = True, task_timestamp = now_result env\<rparr>)"
  using assms
  by (simp add: generate_ai_response_task_def store_exception_def set_task_result_def
      awaited_response_def fallback_response_def get_task_status_def log_event_def Let_def
      split: outcome.splits)

theorem timeout_gives_fallback_witness:
  "generator slow_worker_env = TimedOut \<and> stored slow_worker_env = Returns ()
   \<and> fst (get_task_status 6000000 ''task_1000_29''
           (generate_ai_response_task slow_worker_env sample_args init_state))
     = Inr \<lparr>response = ai_text (fallback_response ''What is ISO 27001?''),
             resp_module = None, source = ''deepseek'', task_id = None\<rparr>"
proof -
  have slow: "generator slow_worker_env = TimedOut"
    and kept: "stored slow_worker_env = Returns ()"
    by (simp_all add: sample_defs)
  from timeout_gives_fallback [OF slow, of sample_args init_state 6000000] slow kept
  show ?thesis by (simp add: sample_defs)
qed

text \<open>
  A timeout followed by an exception of \<^verbatim>\<open>store_chat_history\<close>: the record holds the
  error, not the fallback text.
\<close>

theorem timeout_with_failing_store:
  "generator timeout_failing_store_env = TimedOut
   \<and> background_task_results
       (generate_ai_response_task timeout_failing_store_env sample_args init_state)
       ''task_1000_29''
     = Some \<lparr>task_response = ''Error processing request: collection not found'',
              task_module = None, task_source = ''error'', task_completed = True,
              task_timestamp = 5000000\<rparr>"
  by (simp add: eval_defs sample_defs)

section \<open>Requests with an empty query\<close>




section \<open>Task ids\<close>

lemma digits_distinct: "distinct ''0123456789''"
  by simp

lemma digit_char_inj:
  assumes "a < 10" "b < 10" "digit_char a = digit_char b"
  shows "a = b"
proof -
  have "a < length ''0123456789''" "b < length ''0123456789''"
    using assms by simp_all
  with digits_distinct assms(3) show ?thesis
    unfolding digit_char_def by (simp only: nth_eq_iff_index_eq)
qed

lemma digit_char_in: "d < 10 \<Longrightarrow> digit_char d \<in> set ''0123456789''"
  unfolding digit_char_def by (rule nth_mem) simp

lemma show_nat_digits: "set (show_nat n) \<subseteq> set ''0123456789''"
proof (induction n rule: show_nat.induct)
  case (1 n)
  show ?case
  proof (cases "n < 10")
    case True
    then show ?thesis using digit_char_in [of n] by (simp add: show_nat_digit)
  next
    case False
    have "digit_char (n mod 10) \<in> set ''0123456789''"
      by (rule digit_char_in) simp
    with False 1 show ?thesis by (simp add: show_nat_step)
  qed
qed

lemma show_nat_nonempty: "show_nat n \<noteq> []"
  by (cases "n < 10") (simp_all add: show_nat_digit show_nat_step)

lemma show_nat_inj: "show_nat n = show_nat m \<Longrightarrow> n = m"
proof (induction n arbitrary: m rule: show_nat.induct)
  case (1 n)
  show ?case
  proof (cases "n < 10")
    case n: True
    show ?thesis
    proof (cases "m < 10")
      case True
      with n "1.prems" show ?thesis
        by (simp add: show_nat_digit digit_char_inj)
    next
      case False
      with n "1.prems" show ?thesis
        using show_nat_nonempty [of "m div 10"]
        by (simp add: show_nat_digit show_nat_step)
    qed
  next
    case n: False
    show ?thesis
    proof (cases "m < 10")
      case True
      with n "1.prems" show ?thesis
        using show_nat_nonempty [of "n div 10"]
        by (simp add: show_nat_digit show_nat_step)
    next
      case False
      with n "1.prems" have eq: "show_nat (n div 10) = show_nat (m div 10)"
        and d: "digit_char (n mod 10) = digit_char (m mod 10)"
        by (simp_all add: show_nat_step)
      from "1.IH" [OF n eq] have "n div 10 = m div 10" .
      moreover have "n mod 10 = m mod 10"
        by (rule digit_char_inj [OF _ _ d]) simp_all
      ultimately have "n div 10 * 10 + n mod 10 = m div 10 * 10 + m mod 10"
        by simp
      then show ?thesis by (simp only: div_mult_mod_eq)
    qed
  qed
qed

lemma show_nat_no_minus: "show_nat n \<noteq> CHR ''-'' # xs"
proof
  assume "show_nat n = CHR ''-'' # xs"
  then have "CHR ''-'' \<in> set (show_nat n)" by simp
  with show_nat_digits [of n] show False by auto
qed

lemma str_int_chars: "CHR ''_'' \<notin> set (str_int i)"
  using show_nat_digits [of "nat i"] show_nat_digits [of "nat (- i)"]
  by (auto simp add: str_int_def)

lemma str_int_inj:
  assumes "str_int i = str_int j"
  shows "i = j"
proof (cases "i < 0")
  case i: True
  show ?thesis
  proof (cases "j < 0")
    case True
    with i assms have "show_nat (nat (- i)) = show_nat (nat (- j))"
      by (simp add: str_int_def)
    then have "nat (- i) = nat (- j)" by (rule show_nat_inj)
    with i True show ?thesis by arith
  next
    case False
    with i assms have "show_nat (nat j) = CHR ''-'' # show_nat (nat (- i))"
      by (simp add: str_int_def)
    with show_nat_no_minus show ?thesis by blast
  qed
next
  case i: False
  show ?thesis
  proof (cases "j < 0")
    case True
    with i assms have "show_nat (nat i) = CHR ''-'' # show_nat (nat (- j))"
      by (simp add: str_int_def)
    with show_nat_no_minus show ?thesis by blast
  next
    case False
    with i assms have "show_nat (nat i) = show_nat (nat j)"
      by (simp add: str_int_def)
    then have "nat i = nat j" by (rule show_nat_inj)
    with i False show ?thesis by arith
  qed
qed

lemma make_task_id_eq_iff:
  "make_task_id ms h = make_task_id ms' h' \<longleftrightarrow> ms = ms' \<and> h = h'"
proof -
  have "make_task_id ms h = make_task_id ms' h'
      \<longleftrightarrow> str_int ms @ CHR ''_'' # str_int h = str_int ms' @ CHR ''_'' # str_int h'"
    by (simp add: make_task_id_def)
  also have "\<dots> \<longleftrightarrow> str_int ms = str_int ms' \<and> str_int h = str_int h'"
    by (rule split_at_separator) (rule str_int_chars)+
  also have "\<dots> \<longleftrightarrow> ms = ms' \<and> h = h'"
    using str_int_inj by blast
  finally show ?thesis .
qed

lemma chat_added_task:
  assumes "last (trace (snd (chat_with_bot md5 pyhash env u req s))) = AddTask t"
  shows "t = make_task_id (time_ms env)
            (pyhash (generate_request_hash md5 (username u) (query req) (req_module req)))"
  using assms
  by (auto simp add: chat_with_bot_def cached_response_def database_answer_def
      start_generation_def add_task_def log_event_def Let_def
      split: option.splits prod.splits outcome.splits if_splits)

text \<open>
  When two task ids coincide: two submissions that schedule a worker get the same id if
  and only if they read the same millisecond from the clock and the hashes of their
  fingerprints are equal.
\<close>

theorem task_ids_equal_iff:
  assumes "last (trace (snd (chat_with_bot md5 pyhash env u req s))) = AddTask t"
    and "last (trace (snd (chat_with_bot md5 pyhash env' u' req' s'))) = AddTask t'"
  shows "t = t' \<longleftrightarrow>
     time_ms env = time_ms env'
     \<and> pyhash (generate_request_hash md5 (username u) (query req) (req_module req))
       = pyhash (generate_request_hash md5 (username u') (query req') (req_module req'))"
  using chat_added_task [OF assms(1)] chat_added_task [OF assms(2)]
  by (simp add: make_task_id_eq_iff)

theorem task_ids_equal_iff_witness:
  "last (trace (snd (chat_with_bot id (int \<circ> length) no_answer_env sample_user sample_request
      init_state))) = AddTask ''task_1000_29''
   \<and> last (trace (snd (chat_with_bot id (int \<circ> length) later_env sample_user sample_request
      init_state))) = AddTask ''task_1001_29''
   \<and> time_ms no_answer_env \<noteq> time_ms later_env
   \<and> ''task_1000_29'' \<noteq> ''task_1001_29''"
proof -
  have first: "last (trace (snd (chat_with_bot id (int \<circ> length) no_answer_env sample_user
      sample_request init_state))) = AddTask ''task_1000_29''"
    by (simp add: sample_chat)
  have ms: "time_ms no_answer_env \<noteq> time_ms later_env"
    by (simp add: sample_defs)
  from task_ids_equal_iff [OF first sample_chat_later] first sample_chat_later ms
  show ?thesis by simp
qed

text \<open>
  Claim C8, as the code has it. The task id is made of the clock's millisecond and the
  hash of the fingerprint, with no counter and nothing random, so it is not unique: the
  same request submitted twice within one millisecond schedules two workers under one
  task id.
\<close>

theorem same_millisecond_same_task_id:
  "map arg_task_id (background_tasks (run id (int \<circ> length)
      [Chat no_answer_env (Inr sample_user) sample_body,
       Chat no_answer_env (Inr sample_user) sample_body]))
   = [''task_1000_29'', ''task_1000_29'']"
  by (simp add: eval_defs sample_defs)

section \<open>The cache of answered requests\<close>

lemma start_generation_active:
  "active_requests (snd (start_generation env u req tid s)) = active_requests s"
  by (simp add: start_generation_def add_task_def log_event_def Let_def split: outcome.splits)

lemma worker_active:
  "active_requests (generate_ai_response_task env a s) = active_requests s"
  by (simp add: generate_ai_response_task_def store_exception_def set_task_result_def
      log_event_def Let_def split: sum.splits outcome.splits)

lemma chat_active_written:
  assumes "chat_with_bot md5 pyhash env u req s = (res, s')"
    and "active_requests s' h = Some e" and "active_requests s h \<noteq> Some e"
  shows "h = generate_request_hash md5 (username u) (query req) (req_module req)
     \<and> res = Inr (cache_response e) \<and> source (cache_response e) = ''database''
     \<and> cache_completed e
     \<and> check_existing_query (existing_answered env) (req_module req) \<noteq> None"
  using assms
  by (auto simp add: chat_with_bot_def cached_response_def start_generation_def add_task_def
      database_answer_def log_event_def Let_def
      split: option.splits prod.splits if_splits outcome.splits)

text \<open>
  Claim C10. The chat endpoint writes an entry of \<^verbatim>\<open>active_requests\<close> only when the
  lookup found a stored answer: an entry that is there after a call and was not there
  before is the entry of the request's own fingerprint, completed, holding the response
  the call returned, whose source is \<^verbatim>\<open>database\<close>. The path that schedules the
  worker, and the worker itself, leave \<^verbatim>\<open>active_requests\<close> as it was, so a generated
  answer never becomes an entry.
\<close>

theorem active_requests_written_on_database_hit_only:
  "active_requests (snd (start_generation env u req tid s)) = active_requests s
   \<and> active_requests (generate_ai_response_task wenv a s) = active_requests s
   \<and> (chat_with_bot md5 pyhash env u req s = (res, s')
        \<and> active_requests s' h = Some e \<and> active_requests s h \<noteq> Some e
      \<longrightarrow> h = generate_request_hash md5 (username u) (query req) (req_module req)
          \<and> res = Inr (cache_response e) \<and> source (cache_response e) = ''database''
          \<and> cache_completed e
          \<and> check_existing_query (existing_answered env) (req_module req) \<noteq> None)"
  using chat_active_written [of md5 pyhash env u req s res s' h e]
  by (simp add: start_generation_active worker_active)

theorem active_requests_written_on_database_hit_only_witness:
  "\<exists>res s' e. chat_with_bot id (int \<circ> length) answer_env sample_user module_request init_state
        = (res, s')
     \<and> active_requests s' ''alice:What is ISO 27001?:1'' = Some e
     \<and> active_requests init_state ''alice:What is ISO 27001?:1'' = None
     \<and> res = Inr (cache_response e) \<and> source (cache_response e) = ''database''
     \<and> check_existing_query (existing_answered answer_env) (req_module module_request) \<noteq> None"
proof -
  let ?e = "\<lparr>cache_response = \<lparr>response = ''An ISMS standard.'', resp_module = Some ''1'',
              source = ''database'', task_id = None\<rparr>,
           cache_completed = True, cache_timestamp = 0\<rparr>"
  let ?s' = "snd (chat_with_bot id (int \<circ> length) answer_env sample_user module_request
               init_state)"
  have run: "chat_with_bot id (int \<circ> length) answer_env sample_user module_request init_state
      = (fst (chat_with_bot id (int \<circ> length) answer_env sample_user module_request init_state),
         ?s')"
    by simp
  have after: "active_requests ?s' ''alice:What is ISO 27001?:1'' = Some ?e"
    by (simp add: sample_database_hit)
  have before: "active_requests init_state ''alice:What is ISO 27001?:1'' = None"
    by (simp add: init_state_def)
  then have before': "active_requests init_state ''alice:What is ISO 27001?:1'' \<noteq> Some ?e"
    by simp
  from active_requests_written_on_database_hit_only
         [of answer_env sample_user module_request "''t''" init_state slow_worker_env
             sample_args id "int \<circ> length"
             "fst (chat_with_bot id (int \<circ> length) answer_env sample_user module_request
                init_state)" ?s' "''alice:What is ISO 27001?:1''" ?e]
       run after before before'
  show ?thesis by blast
qed

end
